theory Spec2Isabelle
  imports Main "HOL-Library.Sublist"
begin

section \<open>JavaScript strings\<close>

text \<open>
  A JavaScript string is a sequence of UTF-16 code units. The model uses \<^typ>\<open>string\<close>,
  so a \<^typ>\<open>char\<close> stands for a code unit in the range U+0000 .. U+00FF; on that range
  \<open>String.prototype.trim\<close> and \<open>String.prototype.toLowerCase\<close> are written out exactly.

  \<open>trim\<close> removes WhiteSpace and LineTerminator code units from both ends: in the range
  these are TAB, LF, VT, FF, CR, SPACE and NO-BREAK SPACE.
\<close>

definition is_white_space :: "char \<Rightarrow> bool" where
  "is_white_space c =
     (c \<in> set [CHR 0x09, CHR 0x0A, CHR 0x0B, CHR 0x0C, CHR 0x0D, CHR 0x20, CHR 0xA0])"

definition trim :: "string \<Rightarrow> string" where
  "trim s = rev (dropWhile is_white_space (rev (dropWhile is_white_space s)))"

text \<open>
  \<open>toLowerCase\<close>: the letters A..Z (65..90) and the Latin-1 capitals U+00C0..U+00DE without
  the multiplication sign U+00D7 move up by 32; every other code unit of the range is kept.
\<close>

definition lower_char :: "char \<Rightarrow> char" where
  "lower_char c =
     (let n = (of_char c :: nat)
      in if (65 \<le> n \<and> n \<le> 90) \<or> (192 \<le> n \<and> n \<le> 222 \<and> n \<noteq> 215)
         then char_of (n + 32) else c)"

definition toLowerCase :: "string \<Rightarrow> string" where
  "toLowerCase s = map lower_char s"

text \<open>\<open>s.startsWith(k)\<close> and \<open>s.includes(k)\<close> on strings.\<close>

fun startsWith :: "string \<Rightarrow> string \<Rightarrow> bool" where
  "startsWith s [] = True"
| "startsWith [] (k # ks) = False"
| "startsWith (c # cs) (k # ks) = (c = k \<and> startsWith cs ks)"

fun str_includes :: "string \<Rightarrow> string \<Rightarrow> bool" where
  "str_includes [] k = startsWith [] k"
| "str_includes (c # cs) k = (startsWith (c # cs) k \<or> str_includes cs k)"

text \<open>
  Truthiness of a \<open>string | undefined\<close> (or \<open>string | null\<close>) value: \<open>undefined\<close>, \<open>null\<close> and the
  empty string are falsy.
\<close>

fun truthy :: "string option \<Rightarrow> bool" where
  "truthy None = False"
| "truthy (Some s) = (s \<noteq> [])"


section \<open>types.ts\<close>

text \<open>
  \<open>WasteCategory\<close> is a string enum: at run time its members are the strings below, and
  \<open>Object.values(WasteCategory)\<close> is the list of them in declaration order. A value of
  type \<open>WasteCategory\<close> is a string, and the cast \<open>classificationText as WasteCategory\<close>
  checks nothing, so the model keeps categories as strings.
\<close>

abbreviation PLASTIC :: string where "PLASTIC \<equiv> ''Plastic''"
abbreviation PAPER :: string where "PAPER \<equiv> ''Paper''"
abbreviation CARDBOARD :: string where "CARDBOARD \<equiv> ''Cardboard''"
abbreviation GLASS :: string where "GLASS \<equiv> ''Glass''"
abbreviation METAL :: string where "METAL \<equiv> ''Metal''"
abbreviation UNKNOWN :: string where "UNKNOWN \<equiv> ''Unknown''"

definition WasteCategory_values :: "string list" where
  "WasteCategory_values = [PLASTIC, PAPER, CARDBOARD, GLASS, METAL, UNKNOWN]"


section \<open>services/geminiService.ts\<close>

text \<open>The value a call of \<open>classifyWasteImage\<close> resolves with: \<open>{ category; error? }\<close>.\<close>

record classify_result =
  category :: string
  error :: "string option"

text \<open>
  What the \<open>catch\<close> block can receive. JavaScript throws any value:
  \<^item> \<open>ErrorInstance m\<close>: an object with \<open>error instanceof Error\<close>, whose \<open>message\<close> is the
    string \<open>m\<close>;
  \<^item> \<open>ErrorBadMessage\<close>: an object with \<open>error instanceof Error\<close>, whose \<open>message\<close>
    property has been set to a value that is not a string and has no \<open>includes\<close> method
    (a number, \<open>null\<close>, \<open>undefined\<close>, a plain object);
  \<^item> \<open>MessageObject v\<close>: an object that is not an \<open>Error\<close> and has a \<open>message\<close> property
    with value \<open>v\<close>;
  \<^item> \<open>OtherValue\<close>: anything else (a primitive, \<open>null\<close>, an object without \<open>message\<close>).

  The source casts the caught value to \<open>{ message: string }\<close> without a check, so the
  property of a \<open>MessageObject\<close> may hold a string, an array (which has its own
  \<open>includes\<close>), or a value with no \<open>includes\<close> method at all (\<open>MOther\<close>: a number,
  \<open>null\<close>, \<open>undefined\<close>, a plain object). The same holds of the \<open>message\<close> of an
  \<open>Error\<close>, which line 62 copies and line 66 searches. One case is left out: an \<open>Error\<close>
  whose \<open>message\<close> is an array. The \<open>catch\<close> block returns normally for it, as for a
  string message, with category Unknown and the array in the place of the error string.
\<close>

datatype message_value = MString string | MArray "message_value list" | MOther

datatype thrown =
    ErrorInstance string
  | ErrorBadMessage
  | MessageObject message_value
  | OtherValue

text \<open>Exceptions raised by the repository's own code.\<close>

datatype exn = TypeError | ReaderError

text \<open>
  The vendor call \<open>ai.models.generateContent\<close> is outside the repository. It receives the
  request and either resolves with a response whose \<open>text\<close> is a string, or throws. A
  response without \<open>text\<close> makes \<open>response.text.trim()\<close> raise a \<open>TypeError\<close> inside the same
  \<open>try\<close> block; the \<open>catch\<close> block sees it as an \<open>ErrorInstance\<close>, so \<open>Threw\<close> covers it.
\<close>

datatype api_outcome = Responded string | Threw thrown

record request =
  req_model :: string
  req_mimeType :: string
  req_data :: "string option"
  req_text :: string

definition WASTE_CLASSIFICATION_PROMPT :: string where
  "WASTE_CLASSIFICATION_PROMPT =
     ''You are an expert waste sorting AI. Analyze the image provided, identify the most prominent item of waste, and classify it into one of the following categories:''
     @ [CHR 0x0A] @ ''- Plastic'' @ [CHR 0x0A] @ ''- Paper'' @ [CHR 0x0A] @ ''- Cardboard''
     @ [CHR 0x0A] @ ''- Glass'' @ [CHR 0x0A] @ ''- Metal'' @ [CHR 0x0A]
     @ ''Respond with *only* the category name. If the image is unclear, does not show a clear item of waste, or the item cannot be reasonably classified into these categories, respond with ''
     @ [CHR 0x27] @ ''Unknown'' @ [CHR 0x27] @ ''.''"

text \<open>
  Lines 43 to 57: the body of the \<open>try\<close> block after the vendor call has resolved with
  \<open>response.text = text\<close>.
\<close>

definition classifyWasteImage_try :: "string \<Rightarrow> classify_result" where
  "classifyWasteImage_try text =
     (let classificationText = trim text
      in if classificationText \<in> set WasteCategory_values
         then \<lparr>category = classificationText, error = None\<rparr>
         else
           (let lowerCaseText = toLowerCase classificationText
            in if str_includes lowerCaseText ''plastic'' then \<lparr>category = PLASTIC, error = None\<rparr>
               else if str_includes lowerCaseText ''paper'' then \<lparr>category = PAPER, error = None\<rparr>
               else if str_includes lowerCaseText ''cardboard'' then \<lparr>category = CARDBOARD, error = None\<rparr>
               else if str_includes lowerCaseText ''glass'' then \<lparr>category = GLASS, error = None\<rparr>
               else if str_includes lowerCaseText ''metal'' then \<lparr>category = METAL, error = None\<rparr>
               else \<lparr>category = UNKNOWN,
                     error = Some (''Unexpected category: '' @ classificationText)\<rparr>))"

text \<open>
  \<open>'message' in error\<close> for a non-null object, and \<open>err.message.includes(k)\<close>; \<open>None\<close> is
  the \<open>TypeError\<close> of calling a method that does not exist. An array's \<open>includes\<close> looks
  for an element equal to the string.
\<close>

fun message_of :: "thrown \<Rightarrow> message_value option" where
  "message_of (ErrorInstance m) = Some (MString m)"
| "message_of ErrorBadMessage = Some MOther"
| "message_of (MessageObject v) = Some v"
| "message_of OtherValue = None"

fun message_includes :: "message_value \<Rightarrow> string \<Rightarrow> bool option" where
  "message_includes (MString s) k = Some (str_includes s k)"
| "message_includes (MArray vs) k = Some (MString k \<in> set vs)"
| "message_includes MOther k = None"

text \<open>
  Lines 58 to 71: the \<open>catch\<close> block. \<open>Inl\<close> is an exception that leaves it. For an
  \<open>ErrorBadMessage\<close> line 62 assigns the message, which is not a string, to
  \<open>errorMessage\<close>; line 66 then raises before line 70 can return it, so the model does not
  have to represent that value.
\<close>

definition classifyWasteImage_catch :: "thrown \<Rightarrow> exn + classify_result" where
  "classifyWasteImage_catch err =
     (let errorMessage = ''Failed to classify image due to an API error.'';
          errorMessage = (case err of ErrorInstance m \<Rightarrow> m | _ \<Rightarrow> errorMessage)
      in case message_of err of
           None \<Rightarrow> Inr \<lparr>category = UNKNOWN, error = Some errorMessage\<rparr>
         | Some v \<Rightarrow>
             (case message_includes v ''API key not valid'' of
                None \<Rightarrow> Inl TypeError
              | Some True \<Rightarrow>
                  Inr \<lparr>category = UNKNOWN,
                       error = Some ''Invalid API Key. Please check your configuration.''\<rparr>
              | Some False \<Rightarrow> Inr \<lparr>category = UNKNOWN, error = Some errorMessage\<rparr>))"

text \<open>Lines 28 to 41: the argument of the vendor call (the image part and the text part).\<close>

definition classify_request :: "string option \<Rightarrow> string \<Rightarrow> request" where
  "classify_request imageBase64 mimeType =
     \<lparr>req_model = ''gemini-2.5-flash-preview-04-17'', req_mimeType = mimeType,
      req_data = imageBase64, req_text = WASTE_CLASSIFICATION_PROMPT\<rparr>"

text \<open>
  \<open>classifyWasteImage\<close>. \<open>API_KEY\<close> is the module constant \<open>process.env.API_KEY\<close>
  (\<open>string | undefined\<close>) and \<open>generateContent\<close> the vendor call; both are parameters.
  \<open>imageBase64\<close> is declared a string, but the caller passes whatever \<open>imageToBase64\<close>
  resolved with, which can be \<open>undefined\<close> (\<open>None\<close>). The second component of the value is
  the list of vendor requests the call has made. The \<open>console\<close> output is left out.
\<close>

definition classifyWasteImage ::
  "string option \<Rightarrow> (request \<Rightarrow> api_outcome) \<Rightarrow> string option \<Rightarrow> string
     \<Rightarrow> (exn + classify_result) \<times> request list" where
  "classifyWasteImage API_KEY generateContent imageBase64 mimeType =
     (if \<not> truthy API_KEY
      then (Inr \<lparr>category = UNKNOWN, error = Some ''API Key not configured.''\<rparr>, [])
      else
        (let req = classify_request imageBase64 mimeType
         in (case generateContent req of
               Responded text \<Rightarrow> Inr (classifyWasteImage_try text)
             | Threw err \<Rightarrow> classifyWasteImage_catch err,
             [req])))"


section \<open>App.tsx\<close>

text \<open>A \<open>File\<close> chosen in the file input; \<open>file_type\<close> is its \<open>type\<close> property.\<close>

record file_obj =
  file_name :: string
  file_type :: string

text \<open>
  How a \<open>FileReader\<close> finishes \<open>readAsDataURL\<close>: with \<open>onload\<close>, \<open>reader.result\<close> being the
  data URL, or with \<open>onerror\<close>.
\<close>

datatype read_outcome = Loaded string | ReadFailed

text \<open>The calls that leave the page: a file read, a vendor request.\<close>

datatype effect = ReadAsDataURL file_obj | GenerateContent request

text \<open>\<open>s.split(',')\<close> and the indexing of the array, which yields \<open>undefined\<close> out of range.\<close>

fun split_on :: "char \<Rightarrow> string \<Rightarrow> string list" where
  "split_on sep [] = [[]]"
| "split_on sep (c # cs) =
     (if c = sep then [] # split_on sep cs
      else (case split_on sep cs of [] \<Rightarrow> [[c]] | p # ps \<Rightarrow> (c # p) # ps))"

definition at_index :: "'a list \<Rightarrow> nat \<Rightarrow> 'a option" where
  "at_index xs i = (if i < length xs then Some (xs ! i) else None)"

text \<open>
  \<open>imageToBase64\<close>, lines 5 to 12, as a function of how the reader finishes: the promise
  resolves with \<open>reader.result.split(',')[1]\<close> or rejects.
\<close>

definition imageToBase64 :: "read_outcome \<Rightarrow> exn + string option" where
  "imageToBase64 outcome =
     (case outcome of
        Loaded result \<Rightarrow> Inr (at_index (split_on CHR '','' result) 1)
      | ReadFailed \<Rightarrow> Inl ReaderError)"

text \<open>
  The six \<open>useState\<close> cells of \<open>App\<close>. The cell \<open>error\<close> is named \<open>appError\<close> here, since
  \<open>error\<close> is the field of \<open>classify_result\<close>.
\<close>

record app_state =
  selectedFile :: "file_obj option"
  imageBase64Preview :: "string option"
  mimeType :: "string option"
  classificationResult :: "string option"
  isLoading :: bool
  appError :: "string option"

definition initial_state :: app_state where
  "initial_state =
     \<lparr>selectedFile = None, imageBase64Preview = None, mimeType = None,
      classificationResult = None, isLoading = False, appError = None\<rparr>"

text \<open>
  \<open>handleFileChange\<close>, lines 81 to 105; the argument is \<open>event.target.files?.[0]\<close>. For an
  image the handler starts a \<open>FileReader\<close> for the preview, whose \<open>onloadend\<close> runs later.
\<close>

definition handleFileChange :: "file_obj option \<Rightarrow> app_state \<Rightarrow> app_state \<times> effect list" where
  "handleFileChange file0 s0 =
     (let s = s0\<lparr>appError := None, classificationResult := None\<rparr>
      in case file0 of
           Some file \<Rightarrow>
             if \<not> startsWith (file_type file) ''image/''
             then (s\<lparr>appError := Some ''Please upload a valid image file (PNG, JPG, GIF, WEBP, etc.).'',
                     selectedFile := None, imageBase64Preview := None, mimeType := None\<rparr>, [])
             else (s\<lparr>selectedFile := Some file, mimeType := Some (file_type file)\<rparr>,
                   [ReadAsDataURL file])
         | None \<Rightarrow> (s\<lparr>selectedFile := None, imageBase64Preview := None, mimeType := None\<rparr>, []))"

text \<open>Lines 96 to 98: \<open>reader.onloadend\<close> of the preview reader; \<open>result\<close> is \<open>reader.result\<close>.\<close>

definition preview_onloadend :: "string option \<Rightarrow> app_state \<Rightarrow> app_state" where
  "preview_onloadend result s = s\<lparr>imageBase64Preview := result\<rparr>"

text \<open>
  \<open>handleClassify\<close>, lines 107 to 134, is an \<open>async\<close> function. It is modelled in three
  parts. \<open>handleClassify_start\<close> is what runs at the click: the guard and the three
  setters before the \<open>try\<close>; it returns the file and MIME type that the call goes on with,
  if it goes on.
\<close>

definition handleClassify_start :: "app_state \<Rightarrow> app_state \<times> (file_obj \<times> string) option" where
  "handleClassify_start s =
     (case (selectedFile s, mimeType s) of
        (Some f, Some m) \<Rightarrow>
          if m \<noteq> []
          then (s\<lparr>isLoading := True, appError := None, classificationResult := None\<rparr>, Some (f, m))
          else (s\<lparr>appError := Some ''Please select an image file first.''\<rparr>, None)
      | _ \<Rightarrow> (s\<lparr>appError := Some ''Please select an image file first.''\<rparr>, None))"

text \<open>
  \<open>handleClassify_try\<close> is the two awaited calls of the \<open>try\<close> block, lines 118 and 119,
  given how the file read finishes and how the vendor answers: the value is the result
  (or the exception that reaches the \<open>catch\<close> of line 127) and the calls made.
\<close>

definition handleClassify_try ::
  "string option \<Rightarrow> read_outcome \<Rightarrow> (request \<Rightarrow> api_outcome) \<Rightarrow> file_obj \<Rightarrow> string
     \<Rightarrow> (exn + classify_result) \<times> effect list" where
  "handleClassify_try API_KEY outcome generateContent f m =
     (case imageToBase64 outcome of
        Inl e \<Rightarrow> (Inl e, [ReadAsDataURL f])
      | Inr base64Data \<Rightarrow>
          (case classifyWasteImage API_KEY generateContent base64Data m of
             (result, reqs) \<Rightarrow> (result, ReadAsDataURL f # map GenerateContent reqs)))"

text \<open>
  \<open>handleClassify_settle\<close> is the rest: lines 121 to 126 for a result, the \<open>catch\<close> of lines
  127 to 130 for an exception, and the \<open>finally\<close> of line 132 in both cases.
\<close>

definition handleClassify_settle :: "exn + classify_result \<Rightarrow> app_state \<Rightarrow> app_state" where
  "handleClassify_settle r s =
     (case r of
        Inr result \<Rightarrow>
          if truthy (error result)
          then s\<lparr>appError := error result, classificationResult := Some UNKNOWN,
                 isLoading := False\<rparr>
          else s\<lparr>classificationResult := Some (category result), isLoading := False\<rparr>
      | Inl e \<Rightarrow>
          s\<lparr>appError := Some ''An unexpected error occurred during classification.'',
            classificationResult := Some UNKNOWN, isLoading := False\<rparr>)"

text \<open>One whole run of \<open>handleClassify\<close> with nothing else happening in between.\<close>

definition handleClassify ::
  "string option \<Rightarrow> read_outcome \<Rightarrow> (request \<Rightarrow> api_outcome) \<Rightarrow> app_state
     \<Rightarrow> app_state \<times> effect list" where
  "handleClassify API_KEY outcome generateContent s =
     (case handleClassify_start s of
        (s', None) \<Rightarrow> (s', [])
      | (s', Some (f, m)) \<Rightarrow>
          (case handleClassify_try API_KEY outcome generateContent f m of
             (r, effs) \<Rightarrow> (handleClassify_settle r s', effs)))"

text \<open>
  \<open>handleRemoveImage\<close>, lines 136 to 146 (the reset of the DOM input's value is not part
  of the state).
\<close>

definition handleRemoveImage :: "app_state \<Rightarrow> app_state" where
  "handleRemoveImage s =
     s\<lparr>selectedFile := None, imageBase64Preview := None, mimeType := None,
       classificationResult := None, appError := None\<rparr>"

text \<open>
  What the render of lines 148 to 236 shows, as far as the state decides it: the remove
  button (inside the preview, line 181), the Classify button (line 195), the error box
  with its message (line 211) and the result card with its category (line 218).
\<close>

definition remove_button_rendered :: "app_state \<Rightarrow> bool" where
  "remove_button_rendered s = truthy (imageBase64Preview s)"

definition classify_button_rendered :: "app_state \<Rightarrow> bool" where
  "classify_button_rendered s = (selectedFile s \<noteq> None \<and> \<not> isLoading s)"

definition displayed_error :: "app_state \<Rightarrow> string option" where
  "displayed_error s = (if truthy (appError s) then appError s else None)"

definition displayed_result :: "app_state \<Rightarrow> string option" where
  "displayed_result s =
     (if truthy (classificationResult s) \<and> \<not> isLoading s \<and> \<not> truthy (appError s)
      then classificationResult s else None)"


section \<open>The page as a transition system\<close>

text \<open>
  The handlers run one at a time, and React renders between two of them, so a button can
  be clicked only if the current state renders it. Besides the state of \<open>App\<close>, the page
  holds the calls of \<open>handleClassify\<close> that have started and not yet completed
  (\<open>in_flight\<close>, each with the file and MIME type of its closure) and the preview readers
  that have not yet finished.
\<close>

record page =
  ui :: app_state
  in_flight :: "(file_obj \<times> string) list"
  preview_readers :: "file_obj list"

definition initial_page :: page where
  "initial_page = \<lparr>ui = initial_state, in_flight = [], preview_readers = []\<rparr>"

text \<open>
  The events: the file input changes, a preview reader finishes, the Classify button is
  clicked, an in-flight \<open>handleClassify\<close> completes (with the way its file read finished
  and the vendor's behaviour), the remove button is clicked.
\<close>

datatype event =
    FileChange "file_obj option"
  | PreviewLoadEnd "string option"
  | ClickClassify
  | ClassifyDone read_outcome "request \<Rightarrow> api_outcome"
  | ClickRemove

text \<open>\<open>step\<close> is \<open>None\<close> when the event cannot happen in the state.\<close>

fun started_reads :: "effect list \<Rightarrow> file_obj list" where
  "started_reads [] = []"
| "started_reads (ReadAsDataURL f # effs) = f # started_reads effs"
| "started_reads (GenerateContent r # effs) = started_reads effs"

fun step :: "string option \<Rightarrow> event \<Rightarrow> page \<Rightarrow> page option" where
  "step API_KEY (FileChange file0) p =
     (case handleFileChange file0 (ui p) of
        (s, effs) \<Rightarrow>
          Some (p\<lparr>ui := s, preview_readers := preview_readers p @ started_reads effs\<rparr>))"
| "step API_KEY (PreviewLoadEnd result) p =
     (case preview_readers p of
        [] \<Rightarrow> None
      | f # fs \<Rightarrow> Some (p\<lparr>ui := preview_onloadend result (ui p), preview_readers := fs\<rparr>))"
| "step API_KEY ClickClassify p =
     (if classify_button_rendered (ui p)
      then (case handleClassify_start (ui p) of
              (s, None) \<Rightarrow> Some (p\<lparr>ui := s\<rparr>)
            | (s, Some fm) \<Rightarrow> Some (p\<lparr>ui := s, in_flight := in_flight p @ [fm]\<rparr>))
      else None)"
| "step API_KEY (ClassifyDone outcome generateContent) p =
     (case in_flight p of
        [] \<Rightarrow> None
      | (f, m) # rest \<Rightarrow>
          Some (p\<lparr>ui := handleClassify_settle
                          (fst (handleClassify_try API_KEY outcome generateContent f m)) (ui p),
                  in_flight := rest\<rparr>))"
| "step API_KEY ClickRemove p =
     (if remove_button_rendered (ui p) then Some (p\<lparr>ui := handleRemoveImage (ui p)\<rparr>) else None)"

fun run :: "string option \<Rightarrow> event list \<Rightarrow> page \<Rightarrow> page option" where
  "run API_KEY [] p = Some p"
| "run API_KEY (e # es) p =
     (case step API_KEY e p of None \<Rightarrow> None | Some p' \<Rightarrow> run API_KEY es p')"

text \<open>The counts of the two kinds of call in a list of effects.\<close>

fun is_file_read :: "effect \<Rightarrow> bool" where
  "is_file_read (ReadAsDataURL f) = True"
| "is_file_read (GenerateContent r) = False"

definition file_reads :: "effect list \<Rightarrow> nat" where
  "file_reads effs = length (filter is_file_read effs)"

definition vendor_calls :: "effect list \<Rightarrow> nat" where
  "vendor_calls effs = length (filter (\<lambda>e. \<not> is_file_read e) effs)"


section \<open>The normalization as the specification words it\<close>

text \<open>
  The specification describes the handling of the response text as: an exact match of the
  trimmed text against the known category labels, and otherwise a case-insensitive
  substring search for the keywords, tried in a fixed order. \<open>normalize_spec\<close> follows
  these words: the keywords are a table, searched with \<^const>\<open>find\<close>.
\<close>

definition keyword_table :: "(string \<times> string) list" where
  "keyword_table =
     [(''plastic'', PLASTIC), (''paper'', PAPER), (''cardboard'', CARDBOARD),
      (''glass'', GLASS), (''metal'', METAL)]"

definition normalize_spec :: "string \<Rightarrow> classify_result" where
  "normalize_spec text =
     (let t = trim text
      in if t \<in> set WasteCategory_values then \<lparr>category = t, error = None\<rparr>
         else (case find (\<lambda>(k, c). str_includes (toLowerCase t) k) keyword_table of
                 Some (k, c) \<Rightarrow> \<lparr>category = c, error = None\<rparr>
               | None \<Rightarrow>
                   \<lparr>category = UNKNOWN, error = Some (''Unexpected category: '' @ t)\<rparr>))"

text \<open>A text contains none of the keywords, case-insensitively.\<close>

definition no_keyword :: "string \<Rightarrow> bool" where
  "no_keyword t = (\<forall>k \<in> set (map fst keyword_table). \<not> str_includes (toLowerCase t) k)"

text \<open>
  The error message that the \<open>catch\<close> block derives from a thrown value: the text for an
  invalid key if the message includes "API key not valid", else the message of an
  \<open>Error\<close>, else the default text.
\<close>

definition derived_message :: "thrown \<Rightarrow> string" where
  "derived_message err =
     (if (case message_of err of
            Some v \<Rightarrow> message_includes v ''API key not valid'' = Some True
          | None \<Rightarrow> False)
      then ''Invalid API Key. Please check your configuration.''
      else (case err of
              ErrorInstance m \<Rightarrow> m
            | _ \<Rightarrow> ''Failed to classify image due to an API error.''))"


section \<open>Invariant of the page, and values for examples\<close>

text \<open>
  In every reachable state of the page: \<open>isLoading\<close> holds exactly while a call of
  \<open>handleClassify\<close> is in flight, at most one is, and a selected file is an image whose
  type is the stored MIME type.
\<close>

definition page_inv :: "page \<Rightarrow> bool" where
  "page_inv p =
     ((isLoading (ui p) \<longleftrightarrow> in_flight p \<noteq> []) \<and> length (in_flight p) \<le> 1 \<and>
      (\<forall>f. selectedFile (ui p) = Some f \<longrightarrow>
           startsWith (file_type f) ''image/'' \<and> mimeType (ui p) = Some (file_type f)))"

text \<open>Vendors that answer every request alike.\<close>

definition vendor_responds :: "string \<Rightarrow> request \<Rightarrow> api_outcome" where
  "vendor_responds text req = Responded text"

definition vendor_throws :: "thrown \<Rightarrow> request \<Rightarrow> api_outcome" where
  "vendor_throws err req = Threw err"

definition png :: file_obj where
  "png = \<lparr>file_name = ''can.png'', file_type = ''image/png''\<rparr>"

definition pdf :: file_obj where
  "pdf = \<lparr>file_name = ''bill.pdf'', file_type = ''application/pdf''\<rparr>"

text \<open>The state after \<open>png\<close> has been chosen, and the page after Classify has been clicked.\<close>

definition png_selected :: app_state where
  "png_selected =
     \<lparr>selectedFile = Some png, imageBase64Preview = None, mimeType = Some ''image/png'',
      classificationResult = None, isLoading = False, appError = None\<rparr>"

definition png_page :: page where
  "png_page = \<lparr>ui = png_selected, in_flight = [], preview_readers = [png]\<rparr>"

definition loading_page :: page where
  "loading_page =
     \<lparr>ui = png_selected\<lparr>isLoading := True\<rparr>,
      in_flight = [(png, ''image/png'')], preview_readers = [png]\<rparr>"


section \<open>Properties of classifyWasteImage\<close>

text \<open>\<open>startsWith\<close> and \<open>includes\<close> are the prefix and the substring relation.\<close>

lemma startsWith_prefix: "startsWith s k \<longleftrightarrow> prefix k s"
  by (induction s k rule: startsWith.induct) auto

lemma str_includes_sublist: "str_includes s k \<longleftrightarrow> sublist k s"
  by (induction s) (auto simp: startsWith_prefix sublist_Cons_right)

text \<open>The \<open>try\<close> block and the \<open>catch\<close> block, each on its own.\<close>

lemma try_eq_spec: "classifyWasteImage_try text = normalize_spec text"
  by (simp add: classifyWasteImage_try_def normalize_spec_def keyword_table_def Let_def)

lemma try_category: "category (classifyWasteImage_try text) \<in> set WasteCategory_values"
  by (simp add: classifyWasteImage_try_def Let_def WasteCategory_values_def)

lemma try_error: "error (classifyWasteImage_try text) \<noteq> None \<Longrightarrow> category (classifyWasteImage_try text) = UNKNOWN"
  by (simp add: classifyWasteImage_try_def Let_def split: if_splits)

lemma catch_result: "classifyWasteImage_catch e = Inr r \<Longrightarrow> category r = UNKNOWN \<and> error r \<noteq> None"
  by (auto simp add: classifyWasteImage_catch_def Let_def split: option.splits bool.splits)

text \<open>The trimmed text is a substring of the text, so a keyword in it is in the text.\<close>

lemma rev_dropWhile_takeWhile:
  "rev (dropWhile P (rev u)) @ rev (takeWhile P (rev u)) = u"
proof -
  have "rev (takeWhile P (rev u) @ dropWhile P (rev u)) = u" by simp
  then show ?thesis by (simp only: rev_append)
qed

lemma sublist_trim: "sublist (trim s) s"
proof -
  let ?u = "dropWhile is_white_space s"
  have "?u = trim s @ rev (takeWhile is_white_space (rev ?u))"
    unfolding trim_def by (rule rev_dropWhile_takeWhile [symmetric])
  then have "s = takeWhile is_white_space s @ trim s @ rev (takeWhile is_white_space (rev ?u))"
    by (metis takeWhile_dropWhile_id)
  then show ?thesis unfolding sublist_def by blast
qed

lemma sublist_map_mono: "sublist xs ys \<Longrightarrow> sublist (map f xs) (map f ys)"
proof -
  assume "sublist xs ys"
  then obtain ps ss where "ys = ps @ xs @ ss" unfolding sublist_def by blast
  then have "map f ys = map f ps @ map f xs @ map f ss" by simp
  then show ?thesis unfolding sublist_def by blast
qed

lemma includes_trim_lower:
  "str_includes (toLowerCase (trim s)) k \<Longrightarrow> str_includes (toLowerCase s) k"
  unfolding str_includes_sublist toLowerCase_def
  using sublist_map_mono [OF sublist_trim, of lower_char s] sublist_order.order.trans by blast

text \<open>
  Searching the lower-cased text for a keyword is a case-insensitive search: the keyword
  is found exactly if some substring of the text lower-cases to it.
\<close>

lemma includes_lower_iff:
  "str_includes (toLowerCase s) k \<longleftrightarrow> (\<exists>u. sublist u s \<and> toLowerCase u = k)"
proof
  assume "str_includes (toLowerCase s) k"
  then obtain ps ss where "map lower_char s = ps @ k @ ss"
    unfolding str_includes_sublist toLowerCase_def sublist_def by blast
  then have "\<exists>us vs. s = us @ vs \<and> ps = map lower_char us \<and> k @ ss = map lower_char vs"
    by (simp only: map_eq_append_conv)
  then obtain ps' vs where s: "s = ps' @ vs" and vs: "map lower_char vs = k @ ss"
    by metis
  from vs have "\<exists>us ws. vs = us @ ws \<and> k = map lower_char us \<and> ss = map lower_char ws"
    by (simp only: map_eq_append_conv)
  then obtain u ss' where "vs = u @ ss'" "map lower_char u = k"
    by metis
  with s have "s = ps' @ u @ ss'" "map lower_char u = k" by simp_all
  then show "\<exists>u. sublist u s \<and> toLowerCase u = k"
    unfolding toLowerCase_def by auto
next
  assume "\<exists>u. sublist u s \<and> toLowerCase u = k"
  then show "str_includes (toLowerCase s) k"
    unfolding str_includes_sublist toLowerCase_def using sublist_map_mono by blast
qed


lemma label_has_keyword:
  "t \<in> set WasteCategory_values \<Longrightarrow> t \<noteq> ''Unknown'' \<Longrightarrow> \<not> no_keyword t"
  by (auto simp: WasteCategory_values_def no_keyword_def keyword_table_def toLowerCase_def
      lower_char_def char_of_eq_iff)

lemma no_keyword_trim: "no_keyword text \<Longrightarrow> no_keyword (trim text)"
  unfolding no_keyword_def using includes_trim_lower by blast

lemma try_no_keyword:
  "no_keyword (trim text) \<Longrightarrow> category (classifyWasteImage_try text) = ''Unknown''"
  using label_has_keyword [of "trim text"]
  by (auto simp: classifyWasteImage_try_def Let_def no_keyword_def keyword_table_def)

lemma catch_derived_message:
  assumes "\<forall>v. message_of err = Some v \<longrightarrow> message_includes v ''API key not valid'' \<noteq> None"
  shows "classifyWasteImage_catch err =
           Inr \<lparr>category = ''Unknown'', error = Some (derived_message err)\<rparr>"
  using assms
  by (cases err)
     (auto simp: classifyWasteImage_catch_def derived_message_def Let_def
           split: option.splits bool.splits)

text \<open>
  The call returns a value unless the key is configured, the vendor throws an object with
  a \<open>message\<close> property (an \<open>Error\<close> or not), and that \<open>message\<close> has no \<open>includes\<close> method.
\<close>

lemma classifyWasteImage_returns:
  "(\<exists>r. fst (classifyWasteImage API_KEY generateContent imageBase64 mime) = Inr r) \<longleftrightarrow>
   \<not> (truthy API_KEY \<and>
      (\<exists>err v. generateContent (classify_request imageBase64 mime) = Threw err
         \<and> message_of err = Some v \<and> message_includes v ''API key not valid'' = None))"
  by (auto simp: classifyWasteImage_def classifyWasteImage_catch_def Let_def
           split: api_outcome.splits thrown.splits option.splits bool.splits)


subsection \<open>The claims about classifyWasteImage\<close>

text \<open>
  C1: for every response text of the model, \<open>classifyWasteImage\<close> normalizes it as the
  specification says: the trimmed text is matched exactly against the known category
  labels, and only if that fails the keywords plastic, paper, cardboard, glass, metal are
  searched in the lower-cased text in this order, the first keyword of the order that
  occurs deciding the category. The function computes \<open>normalize_spec\<close>, and makes the one
  vendor request.
\<close>

theorem classifyWasteImage_normalizes:
  assumes "truthy API_KEY"
    and "generateContent (classify_request imageBase64 mime) = Responded text"
  shows "classifyWasteImage API_KEY generateContent imageBase64 mime =
           (Inr (normalize_spec text), [classify_request imageBase64 mime])"
  using assms by (simp add: classifyWasteImage_def try_eq_spec)

theorem classifyWasteImage_normalizes_witness:
  "truthy (Some ''key'') \<and>
   vendor_responds '' Metal can and PLASTIC lid '' (classify_request (Some ''aGk='') ''image/png'')
      = Responded '' Metal can and PLASTIC lid '' \<and>
   normalize_spec '' Metal can and PLASTIC lid '' = \<lparr>category = ''Plastic'', error = None\<rparr> \<and>
   classifyWasteImage (Some ''key'') (vendor_responds '' Metal can and PLASTIC lid '')
       (Some ''aGk='') ''image/png'' =
     (Inr \<lparr>category = ''Plastic'', error = None\<rparr>,
      [classify_request (Some ''aGk='') ''image/png''])"
proof -
  have n: "normalize_spec '' Metal can and PLASTIC lid '' = \<lparr>category = ''Plastic'', error = None\<rparr>"
    by (simp add: normalize_spec_def keyword_table_def
        WasteCategory_values_def trim_def is_white_space_def toLowerCase_def lower_char_def
        char_of_eq_iff)
  show ?thesis
    using classifyWasteImage_normalizes
      [of "Some ''key''" "vendor_responds '' Metal can and PLASTIC lid ''" "Some ''aGk=''"
          "''image/png''" "'' Metal can and PLASTIC lid ''"]
    by (simp add: n vendor_responds_def)
qed

text \<open>
  C2: whatever the payload, the MIME type, the API key, and whether the vendor answers
  (with any text) or throws, the category of the value that \<open>classifyWasteImage\<close> returns
  is one of the six strings Plastic, Paper, Cardboard, Glass, Metal, Unknown.
\<close>

theorem classifyWasteImage_category_known:
  assumes "fst (classifyWasteImage API_KEY generateContent imageBase64 mime) = Inr r"
  shows "category r \<in> {''Plastic'', ''Paper'', ''Cardboard'', ''Glass'', ''Metal'', ''Unknown''}"
proof (cases "truthy API_KEY")
  case False
  with assms show ?thesis by (auto simp: classifyWasteImage_def)
next
  case True
  show ?thesis
  proof (cases "generateContent (classify_request imageBase64 mime)")
    case (Responded t)
    with True assms have "r = classifyWasteImage_try t"
      by (simp add: classifyWasteImage_def)
    with try_category [of t] show ?thesis
      by (simp add: WasteCategory_values_def)
  next
    case (Threw err)
    with True assms have "classifyWasteImage_catch err = Inr r"
      by (simp add: classifyWasteImage_def)
    then show ?thesis using catch_result by simp
  qed
qed

theorem classifyWasteImage_category_known_witness:
  "fst (classifyWasteImage (Some ''key'') (vendor_responds ''a glass jar'') None ''image/jpeg'')
     = Inr \<lparr>category = ''Glass'', error = None\<rparr> \<and>
   category \<lparr>category = ''Glass'', error = None\<rparr>
     \<in> {''Plastic'', ''Paper'', ''Cardboard'', ''Glass'', ''Metal'', ''Unknown''}"
proof -
  have h: "fst (classifyWasteImage (Some ''key'') (vendor_responds ''a glass jar'') None ''image/jpeg'')
     = Inr \<lparr>category = ''Glass'', error = None\<rparr>"
    by (simp add: classifyWasteImage_def classifyWasteImage_try_def vendor_responds_def
        WasteCategory_values_def trim_def is_white_space_def toLowerCase_def lower_char_def
        char_of_eq_iff)
  from classifyWasteImage_category_known [OF h] h show ?thesis by blast
qed

text \<open>
  C4: if the response text is not a known category label and contains none of the
  keywords plastic, paper, cardboard, glass, metal in any letter case, then
  \<open>classifyWasteImage\<close> returns the category Unknown. (Read on the trimmed text, the
  condition gives the same: lemma \<open>try_no_keyword\<close>.)
\<close>

theorem classifyWasteImage_unmatched_unknown:
  assumes "truthy API_KEY"
    and "generateContent (classify_request imageBase64 mime) = Responded text"
    and "text \<notin> set WasteCategory_values"
    and "no_keyword text"
  shows "\<exists>r. fst (classifyWasteImage API_KEY generateContent imageBase64 mime) = Inr r
           \<and> category r = ''Unknown''"
  using assms try_no_keyword [OF no_keyword_trim, of "text"]
  by (simp add: classifyWasteImage_def)

theorem classifyWasteImage_unmatched_unknown_witness:
  "truthy (Some ''key'') \<and>
   vendor_responds ''A banana peel.'' (classify_request (Some ''aGk='') ''image/png'')
      = Responded ''A banana peel.'' \<and>
   ''A banana peel.'' \<notin> set WasteCategory_values \<and>
   no_keyword ''A banana peel.'' \<and>
   fst (classifyWasteImage (Some ''key'') (vendor_responds ''A banana peel.'')
          (Some ''aGk='') ''image/png'') =
     Inr \<lparr>category = ''Unknown'', error = Some ''Unexpected category: A banana peel.''\<rparr>"
proof -
  have k: "truthy (Some ''key'')" by simp
  have v: "vendor_responds ''A banana peel.'' (classify_request (Some ''aGk='') ''image/png'')
      = Responded ''A banana peel.''"
    by (simp add: vendor_responds_def)
  have l: "''A banana peel.'' \<notin> set WasteCategory_values"
    by (simp add: WasteCategory_values_def)
  have n: "no_keyword ''A banana peel.''"
    by (simp add: no_keyword_def keyword_table_def toLowerCase_def lower_char_def char_of_eq_iff)
  have e: "fst (classifyWasteImage (Some ''key'') (vendor_responds ''A banana peel.'')
          (Some ''aGk='') ''image/png'') =
     Inr \<lparr>category = ''Unknown'', error = Some ''Unexpected category: A banana peel.''\<rparr>"
    using classifyWasteImage_unmatched_unknown
            [of "Some ''key''" "vendor_responds ''A banana peel.''" "Some ''aGk=''"
                "''image/png''" "''A banana peel.''"] k v l n
    by (simp add: classifyWasteImage_def classifyWasteImage_try_def vendor_responds_def
        WasteCategory_values_def trim_def is_white_space_def toLowerCase_def lower_char_def
        char_of_eq_iff)
  from k v l n e show ?thesis by blast
qed

text \<open>
  C5: in every value that \<open>classifyWasteImage\<close> returns, an error field that is present
  comes with the category Unknown; a category other than Unknown never comes with an
  error message.
\<close>

theorem classifyWasteImage_error_unknown:
  assumes "fst (classifyWasteImage API_KEY generateContent imageBase64 mime) = Inr r"
    and "error r \<noteq> None"
  shows "category r = ''Unknown''"
proof (cases "truthy API_KEY")
  case False
  with assms show ?thesis by (auto simp: classifyWasteImage_def)
next
  case True
  show ?thesis
  proof (cases "generateContent (classify_request imageBase64 mime)")
    case (Responded t)
    with True assms have "r = classifyWasteImage_try t"
      by (simp add: classifyWasteImage_def)
    with try_error [of t] assms(2) show ?thesis by simp
  next
    case (Threw err)
    with True assms have "classifyWasteImage_catch err = Inr r"
      by (simp add: classifyWasteImage_def)
    then show ?thesis using catch_result by simp
  qed
qed

theorem classifyWasteImage_error_unknown_witness:
  "fst (classifyWasteImage (Some ''key'') (vendor_throws (ErrorInstance ''quota exceeded''))
          None ''image/jpeg'')
     = Inr \<lparr>category = ''Unknown'', error = Some ''quota exceeded''\<rparr> \<and>
   error \<lparr>category = ''Unknown'', error = Some ''quota exceeded''\<rparr> \<noteq> None \<and>
   category \<lparr>category = ''Unknown'', error = Some ''quota exceeded''\<rparr> = ''Unknown''"
proof -
  have h: "fst (classifyWasteImage (Some ''key'') (vendor_throws (ErrorInstance ''quota exceeded''))
          None ''image/jpeg'')
     = Inr \<lparr>category = ''Unknown'', error = Some ''quota exceeded''\<rparr>"
    by (simp add: classifyWasteImage_def classifyWasteImage_catch_def vendor_throws_def)
  have e: "error \<lparr>category = ''Unknown'', error = Some ''quota exceeded''\<rparr> \<noteq> None"
    by simp
  from classifyWasteImage_error_unknown [OF h e] h e show ?thesis by blast
qed

text \<open>
  C9: without a configured API key (\<open>undefined\<close> or the empty string), the call returns
  category Unknown with the message "API Key not configured." and makes no vendor request,
  whatever the other inputs are.
\<close>

theorem classifyWasteImage_no_api_key:
  "\<not> truthy API_KEY \<Longrightarrow>
     classifyWasteImage API_KEY generateContent imageBase64 mime =
       (Inr \<lparr>category = UNKNOWN, error = Some ''API Key not configured.''\<rparr>, [])"
  by (simp add: classifyWasteImage_def)

theorem classifyWasteImage_no_api_key_witness:
  "\<not> truthy None \<and>
   classifyWasteImage None (vendor_responds ''Glass'') (Some ''aGVsbG8='') ''image/png'' =
     (Inr \<lparr>category = ''Unknown'', error = Some ''API Key not configured.''\<rparr>, [])"
  using classifyWasteImage_no_api_key
          [of None "vendor_responds ''Glass''" "Some ''aGVsbG8=''" "''image/png''"]
  by simp


section \<open>Properties of the page\<close>

lemma initial_page_inv: "page_inv initial_page"
  by (simp add: page_inv_def initial_page_def initial_state_def)

lemma startsWith_image_nonempty: "startsWith t ''image/'' \<Longrightarrow> t \<noteq> []"
  by (cases t) simp_all

lemma step_FileChange_inv:
  assumes "page_inv p" and "step API_KEY (FileChange file0) p = Some p'"
  shows "page_inv p'"
  using assms
  by (auto simp: page_inv_def handleFileChange_def Let_def split: option.splits if_splits)

lemma step_PreviewLoadEnd_inv:
  assumes "page_inv p" and "step API_KEY (PreviewLoadEnd r) p = Some p'"
  shows "page_inv p'"
  using assms
  by (auto simp: page_inv_def preview_onloadend_def split: list.splits)

lemma step_ClickClassify_inv:
  assumes "page_inv p" and "step API_KEY ClickClassify p = Some p'"
  shows "page_inv p'"
  using assms
  by (auto simp: page_inv_def classify_button_rendered_def handleClassify_start_def
           split: option.splits if_splits prod.splits)

lemma settle_fields:
  "selectedFile (handleClassify_settle r s) = selectedFile s"
  "mimeType (handleClassify_settle r s) = mimeType s"
  "isLoading (handleClassify_settle r s) = False"
  by (simp_all add: handleClassify_settle_def split: sum.splits)

lemma step_ClassifyDone_inv:
  assumes "page_inv p" and "step API_KEY (ClassifyDone outcome g) p = Some p'"
  shows "page_inv p'"
proof -
  from assms(2) obtain f m rest where fl: "in_flight p = (f, m) # rest"
    and p': "p' = p\<lparr>ui := handleClassify_settle
                          (fst (handleClassify_try API_KEY outcome g f m)) (ui p),
                  in_flight := rest\<rparr>"
    by (auto split: list.splits)
  from assms(1) fl have "rest = []" by (simp add: page_inv_def)
  with assms(1) p' show ?thesis by (simp add: page_inv_def settle_fields)
qed

lemma step_ClickRemove_inv:
  assumes "page_inv p" and "step API_KEY ClickRemove p = Some p'"
  shows "page_inv p'"
  using assms
  by (auto simp: page_inv_def handleRemoveImage_def split: if_splits)

lemma step_inv:
  assumes "page_inv p" and "step API_KEY e p = Some p'"
  shows "page_inv p'"
  using assms
  by (cases e)
     (blast intro: step_FileChange_inv step_PreviewLoadEnd_inv step_ClickClassify_inv
        step_ClassifyDone_inv step_ClickRemove_inv)+

lemma run_inv:
  "page_inv p \<Longrightarrow> run API_KEY es p = Some p' \<Longrightarrow> page_inv p'"
proof (induction es arbitrary: p)
  case Nil
  then show ?case by simp
next
  case (Cons e es)
  then show ?case by (auto split: option.splits dest: step_inv)
qed

lemma reachable_inv: "run API_KEY es initial_page = Some p \<Longrightarrow> page_inv p"
  using run_inv [OF initial_page_inv] .

lemma step_keeps_in_flight:
  assumes "step API_KEY e p = Some p'" and "\<not> (\<exists>outcome g. e = ClassifyDone outcome g)"
  shows "prefix (in_flight p) (in_flight p')"
  using assms
  by (cases e) (auto split: prod.splits option.splits list.splits if_splits)


lemma classifyWasteImage_requests:
  "classifyWasteImage API_KEY g b m = (r, reqs) \<Longrightarrow> length reqs \<le> 1"
  by (auto simp: classifyWasteImage_def Let_def split: if_splits)

lemma handleClassify_try_effects:
  "file_reads (snd (handleClassify_try API_KEY outcome g f m)) = 1 \<and>
   vendor_calls (snd (handleClassify_try API_KEY outcome g f m)) \<le> 1"
  by (auto simp: handleClassify_try_def file_reads_def vendor_calls_def filter_map comp_def
      split: sum.splits prod.splits dest: classifyWasteImage_requests)

lemma handleClassify_started:
  assumes "selectedFile s = Some f" and "mimeType s = Some m" and "m \<noteq> []"
  shows "handleClassify API_KEY outcome g s =
           (handleClassify_settle (fst (handleClassify_try API_KEY outcome g f m))
              (s\<lparr>isLoading := True, appError := None, classificationResult := None\<rparr>),
            snd (handleClassify_try API_KEY outcome g f m))"
  using assms by (simp add: handleClassify_def handleClassify_start_def split: prod.splits)

text \<open>
  A click on Classify followed at once by the completion of the call is one run of
  \<open>handleClassify\<close>.
\<close>

lemma handleClassify_as_steps:
  assumes "page_inv p" and "classify_button_rendered (ui p)"
  shows "run API_KEY [ClickClassify, ClassifyDone outcome g] p =
           Some (p\<lparr>ui := fst (handleClassify API_KEY outcome g (ui p))\<rparr>)"
proof -
  from assms(2) obtain f where f: "selectedFile (ui p) = Some f"
    by (auto simp: classify_button_rendered_def)
  with assms(1) have m: "mimeType (ui p) = Some (file_type f)"
    and "startsWith (file_type f) ''image/''"
    by (simp_all add: page_inv_def)
  then have ne: "file_type f \<noteq> []" using startsWith_image_nonempty by blast
  from assms have e: "in_flight p = []"
    by (simp add: page_inv_def classify_button_rendered_def)
  show ?thesis
    using assms(2) f m ne e
    by (simp add: handleClassify_started [OF f m ne] handleClassify_start_def)
qed


subsection \<open>The claims about the page\<close>

text \<open>
  C3: the claim is that whenever the vendor call throws, \<open>classifyWasteImage\<close> catches the
  exception, never lets it reach the caller, and returns normally with an error message
  derived from the thrown value, which the App then shows. The \<open>catch\<close> block of lines 58
  to 71 is written to do this for every thrown value: it has a default message, and it
  tests \<open>instanceof Error\<close> and \<open>'message' in error\<close> before it reads the message. But
  line 66 calls \<open>includes\<close> on the message behind the unchecked cast of line 65. When the
  vendor throws the object \<open>{ message: 42 }\<close>, or an \<open>Error\<close> whose message has been set to
  42, that call raises a \<open>TypeError\<close> inside the \<open>catch\<close> block: the promise of
  \<open>classifyWasteImage\<close> rejects, the exception reaches \<open>handleClassify\<close>, and the App shows
  the text of line 129 instead of a message derived from the thrown value.
\<close>

theorem api_error_escapes_catch:
  "classifyWasteImage (Some ''key'') (vendor_throws (MessageObject MOther))
       (Some ''aGk='') ''image/png''
     = (Inl TypeError, [classify_request (Some ''aGk='') ''image/png'']) \<and>
   classifyWasteImage (Some ''key'') (vendor_throws ErrorBadMessage)
       (Some ''aGk='') ''image/png''
     = (Inl TypeError, [classify_request (Some ''aGk='') ''image/png'']) \<and>
   displayed_error (fst (handleClassify (Some ''key'') (Loaded ''data:image/png;base64,aGk='')
       (vendor_throws (MessageObject MOther)) png_selected))
     = Some ''An unexpected error occurred during classification.''"
  by (simp add: classifyWasteImage_def classifyWasteImage_catch_def vendor_throws_def
      handleClassify_def handleClassify_start_def handleClassify_try_def
      handleClassify_settle_def imageToBase64_def at_index_def png_selected_def
      displayed_error_def)

text \<open>
  Where the \<open>catch\<close> block does return, the App shows the message it returns if the
  message is not empty (lines 121 and 211 test it by truthiness). An \<open>Error\<close> with the
  empty message gives the error \<open>""\<close>: no error box is shown, and the result card shows
  Unknown.
\<close>

lemma caught_error_displayed:
  assumes "truthy API_KEY"
    and "generateContent (classify_request b m) = Threw err"
    and "\<forall>v. message_of err = Some v \<longrightarrow> message_includes v ''API key not valid'' \<noteq> None"
    and "selectedFile s = Some f" and "mimeType s = Some m" and "m \<noteq> []"
    and "imageToBase64 outcome = Inr b"
    and "derived_message err \<noteq> []"
  shows "displayed_error (fst (handleClassify API_KEY outcome generateContent s))
           = Some (derived_message err)"
proof -
  have "classifyWasteImage API_KEY generateContent b m =
           (Inr \<lparr>category = ''Unknown'', error = Some (derived_message err)\<rparr>,
            [classify_request b m])"
    using assms(1,2) catch_derived_message [OF assms(3)]
    by (simp add: classifyWasteImage_def)
  then show ?thesis
    using assms(7,8)
    by (simp add: handleClassify_started [OF assms(4,5,6)] handleClassify_try_def
        handleClassify_settle_def displayed_error_def)
qed

lemma empty_error_message_not_displayed:
  "fst (classifyWasteImage (Some ''key'') (vendor_throws (ErrorInstance []))
          (Some ''aGk='') ''image/png'')
     = Inr \<lparr>category = ''Unknown'', error = Some []\<rparr> \<and>
   displayed_error (fst (handleClassify (Some ''key'') (Loaded ''data:image/png;base64,aGk='')
       (vendor_throws (ErrorInstance [])) png_selected)) = None \<and>
   displayed_result (fst (handleClassify (Some ''key'') (Loaded ''data:image/png;base64,aGk='')
       (vendor_throws (ErrorInstance [])) png_selected)) = Some ''Unknown''"
  by (simp add: classifyWasteImage_def classifyWasteImage_catch_def vendor_throws_def
      handleClassify_def handleClassify_start_def handleClassify_try_def
      handleClassify_settle_def imageToBase64_def at_index_def png_selected_def
      displayed_error_def displayed_result_def)

text \<open>
  C6: at most one classification request is in flight. In every reachable state of the
  page there is at most one call of \<open>handleClassify\<close> in flight, and \<open>isLoading\<close> holds
  exactly while there is one; while there is one, the Classify button is not rendered and
  a click on it cannot happen; and no event other than the completion of the call removes
  it from the calls in flight: there is no cancellation.
\<close>

theorem single_request_in_flight:
  assumes "run API_KEY es initial_page = Some p"
  shows "length (in_flight p) \<le> 1 \<and>
         (isLoading (ui p) \<longleftrightarrow> in_flight p \<noteq> []) \<and>
         (in_flight p \<noteq> [] \<longrightarrow>
            \<not> classify_button_rendered (ui p) \<and> step API_KEY ClickClassify p = None) \<and>
         (\<forall>e p'. step API_KEY e p = Some p' \<and> \<not> (\<exists>outcome g. e = ClassifyDone outcome g)
            \<longrightarrow> prefix (in_flight p) (in_flight p'))"
proof -
  from assms have inv: "page_inv p" by (rule reachable_inv)
  then have a: "length (in_flight p) \<le> 1" and b: "isLoading (ui p) \<longleftrightarrow> in_flight p \<noteq> []"
    by (simp_all add: page_inv_def)
  from b have c: "in_flight p \<noteq> [] \<longrightarrow>
      \<not> classify_button_rendered (ui p) \<and> step API_KEY ClickClassify p = None"
    by (simp add: classify_button_rendered_def)
  from a b c step_keeps_in_flight show ?thesis by blast
qed

theorem single_request_in_flight_witness:
  "run (Some ''key'') [FileChange (Some png), ClickClassify] initial_page = Some loading_page \<and>
   length (in_flight loading_page) \<le> 1 \<and> in_flight loading_page \<noteq> [] \<and>
   isLoading (ui loading_page) \<and>
   \<not> classify_button_rendered (ui loading_page) \<and>
   step (Some ''key'') ClickClassify loading_page = None \<and>
   step (Some ''key'') (FileChange None) loading_page \<noteq> None \<and>
   prefix (in_flight loading_page)
     (in_flight (the (step (Some ''key'') (FileChange None) loading_page)))"
proof -
  have r: "run (Some ''key'') [FileChange (Some png), ClickClassify] initial_page = Some loading_page"
    by (simp add: initial_page_def initial_state_def loading_page_def png_selected_def png_def
        handleFileChange_def classify_button_rendered_def handleClassify_start_def)
  have n: "in_flight loading_page \<noteq> []" by (simp add: loading_page_def)
  have s: "step (Some ''key'') (FileChange None) loading_page \<noteq> None"
    by (simp add: handleFileChange_def)
  from single_request_in_flight [OF r] n s r show ?thesis
    by (metis event.distinct(5) option.exhaust_sel)
qed

text \<open>
  C8: each classification attempt, that is each run of \<open>handleClassify\<close> started from the
  Classify button in a reachable state, performs exactly one file read and at most one
  vendor request: exactly one if the read succeeds and the API key is configured, none
  otherwise. Nothing of an earlier attempt is reused (no cache), and a failed call is not
  repeated (no retry).
\<close>

theorem classification_attempt_effects:
  assumes "run API_KEY es initial_page = Some p" and "classify_button_rendered (ui p)"
  shows "file_reads (snd (handleClassify API_KEY outcome generateContent (ui p))) = 1 \<and>
         vendor_calls (snd (handleClassify API_KEY outcome generateContent (ui p))) \<le> 1 \<and>
         vendor_calls (snd (handleClassify API_KEY outcome generateContent (ui p))) =
           (case imageToBase64 outcome of
              Inr b \<Rightarrow> if truthy API_KEY then 1 else 0
            | Inl e \<Rightarrow> 0)"
proof -
  from assms(1) have inv: "page_inv p" by (rule reachable_inv)
  from assms(2) obtain f where f: "selectedFile (ui p) = Some f"
    by (auto simp: classify_button_rendered_def)
  with inv have m: "mimeType (ui p) = Some (file_type f)" and "startsWith (file_type f) ''image/''"
    by (simp_all add: page_inv_def)
  then have ne: "file_type f \<noteq> []" using startsWith_image_nonempty by blast
  have eq: "snd (handleClassify API_KEY outcome generateContent (ui p)) =
        snd (handleClassify_try API_KEY outcome generateContent f (file_type f))"
    by (simp add: handleClassify_started [OF f m ne])
  have "vendor_calls (snd (handleClassify_try API_KEY outcome generateContent f (file_type f))) =
           (case imageToBase64 outcome of
              Inr b \<Rightarrow> if truthy API_KEY then 1 else 0
            | Inl e \<Rightarrow> 0)"
    by (simp add: handleClassify_try_def classifyWasteImage_def vendor_calls_def Let_def
        split: sum.splits)
  with eq handleClassify_try_effects [of API_KEY outcome generateContent f "file_type f"]
  show ?thesis by simp
qed

theorem classification_attempt_effects_witness:
  "run (Some ''key'') [FileChange (Some png)] initial_page = Some png_page \<and>
   classify_button_rendered (ui png_page) \<and>
   snd (handleClassify (Some ''key'') (Loaded ''data:image/png;base64,aGk='')
          (vendor_throws (ErrorInstance ''quota exceeded'')) (ui png_page)) =
     [ReadAsDataURL png, GenerateContent (classify_request (Some ''aGk='') ''image/png'')] \<and>
   file_reads (snd (handleClassify (Some ''key'') (Loaded ''data:image/png;base64,aGk='')
          (vendor_throws (ErrorInstance ''quota exceeded'')) (ui png_page))) = 1 \<and>
   vendor_calls (snd (handleClassify (Some ''key'') (Loaded ''data:image/png;base64,aGk='')
          (vendor_throws (ErrorInstance ''quota exceeded'')) (ui png_page))) = 1"
proof -
  have r: "run (Some ''key'') [FileChange (Some png)] initial_page = Some png_page"
    by (simp add: initial_page_def initial_state_def png_page_def png_selected_def png_def
        handleFileChange_def)
  have b: "classify_button_rendered (ui png_page)"
    by (simp add: classify_button_rendered_def png_page_def png_selected_def)
  have i: "imageToBase64 (Loaded ''data:image/png;base64,aGk='') = Inr (Some ''aGk='')"
    by (simp add: imageToBase64_def at_index_def)
  have e: "snd (handleClassify (Some ''key'') (Loaded ''data:image/png;base64,aGk='')
          (vendor_throws (ErrorInstance ''quota exceeded'')) (ui png_page)) =
     [ReadAsDataURL png, GenerateContent (classify_request (Some ''aGk='') ''image/png'')]"
    by (simp add: handleClassify_def handleClassify_start_def handleClassify_try_def i
        classifyWasteImage_def classifyWasteImage_catch_def vendor_throws_def
        png_page_def png_selected_def)
  from classification_attempt_effects [OF r b, of "Loaded ''data:image/png;base64,aGk=''"
         "vendor_throws (ErrorInstance ''quota exceeded'')"] i
  have "file_reads (snd (handleClassify (Some ''key'') (Loaded ''data:image/png;base64,aGk='')
          (vendor_throws (ErrorInstance ''quota exceeded'')) (ui png_page))) = 1 \<and>
        vendor_calls (snd (handleClassify (Some ''key'') (Loaded ''data:image/png;base64,aGk='')
          (vendor_throws (ErrorInstance ''quota exceeded'')) (ui png_page))) = 1"
    by simp
  with r b e show ?thesis by blast
qed

text \<open>
  C10: when \<open>handleFileChange\<close> receives a file whose type does not start with "image/",
  it sets the validation message and sets the selected file, the preview and the stored
  MIME type to null (and starts no file read); and in no reachable state of the page is
  the selected file anything but an image.
\<close>

theorem handleFileChange_rejects_non_image:
  "(\<not> startsWith (file_type f) ''image/'' \<longrightarrow>
      handleFileChange (Some f) s =
        (s\<lparr>appError := Some ''Please upload a valid image file (PNG, JPG, GIF, WEBP, etc.).'',
           classificationResult := None,
           selectedFile := None, imageBase64Preview := None, mimeType := None\<rparr>, [])) \<and>
   (run API_KEY es initial_page = Some p \<and> selectedFile (ui p) = Some g \<longrightarrow>
      startsWith (file_type g) ''image/'')"
proof -
  have "\<not> startsWith (file_type f) ''image/'' \<longrightarrow>
      handleFileChange (Some f) s =
        (s\<lparr>appError := Some ''Please upload a valid image file (PNG, JPG, GIF, WEBP, etc.).'',
           classificationResult := None,
           selectedFile := None, imageBase64Preview := None, mimeType := None\<rparr>, [])"
    by (simp add: handleFileChange_def)
  moreover have "run API_KEY es initial_page = Some p \<and> selectedFile (ui p) = Some g \<longrightarrow>
      startsWith (file_type g) ''image/''"
    using reachable_inv [of API_KEY es p] by (simp add: page_inv_def)
  ultimately show ?thesis by blast
qed

theorem handleFileChange_rejects_non_image_witness:
  "\<not> startsWith (file_type pdf) ''image/'' \<and>
   handleFileChange (Some pdf) png_selected =
     (\<lparr>selectedFile = None, imageBase64Preview = None, mimeType = None,
       classificationResult = None, isLoading = False,
       appError = Some ''Please upload a valid image file (PNG, JPG, GIF, WEBP, etc.).''\<rparr>, []) \<and>
   run (Some ''key'') [FileChange (Some png)] initial_page = Some png_page \<and>
   selectedFile (ui png_page) = Some png \<and>
   startsWith (file_type png) ''image/''"
proof -
  have n: "\<not> startsWith (file_type pdf) ''image/''" by (simp add: pdf_def)
  have r: "run (Some ''key'') [FileChange (Some png)] initial_page = Some png_page"
    by (simp add: initial_page_def initial_state_def png_page_def png_selected_def png_def
        handleFileChange_def)
  have g: "selectedFile (ui png_page) = Some png"
    by (simp add: png_page_def png_selected_def)
  from handleFileChange_rejects_non_image
         [of pdf png_selected "Some ''key''" "[FileChange (Some png)]" png_page png] n r g
  have "handleFileChange (Some pdf) png_selected =
     (\<lparr>selectedFile = None, imageBase64Preview = None, mimeType = None,
       classificationResult = None, isLoading = False,
       appError = Some ''Please upload a valid image file (PNG, JPG, GIF, WEBP, etc.).''\<rparr>, []) \<and>
     startsWith (file_type png) ''image/''"
    by (simp add: png_selected_def)
  with n r g show ?thesis by blast
qed

end
